theory Spec2Isabelle
  imports Main "HOL-Library.Multiset" "HOL-Library.Char_ord" "HOL-Library.List_Lexorder"
begin

section \<open>Exceptions\<close>

text \<open>
  The Python exceptions the modelled code can raise.  A function that can raise returns
  \<open>error + 'a\<close>, with \<open>Inl\<close> for the exception.
\<close>

datatype error = ValueError | AttributeError | KeyError | IndexError | TypeError

section \<open>Interval tree (data\_structures/interval\_tree.py)\<close>

subsection \<open>class Interval\<close>

text \<open>
  Bounds are integers (the reservation system stores minutes since the epoch); \<open>iv_data\<close>
  is the attached payload, \<open>None\<close> when the constructor's default is used.
\<close>

record 'd Interval =
  iv_start :: int
  iv_end :: int
  iv_data :: "'d option"

definition Interval_init :: "int \<Rightarrow> int \<Rightarrow> 'd option \<Rightarrow> error + 'd Interval" where
  "Interval_init s e d =
     (if s > e then Inl ValueError
      else Inr \<lparr>iv_start = s, iv_end = e, iv_data = d\<rparr>)"

definition overlaps :: "'d Interval \<Rightarrow> 'd Interval \<Rightarrow> bool" where
  "overlaps a other \<longleftrightarrow> iv_start a < iv_end other \<and> iv_start other < iv_end a"

definition interval_eq :: "'d Interval \<Rightarrow> 'd Interval \<Rightarrow> bool" where
  "interval_eq a other \<longleftrightarrow> iv_start a = iv_start other \<and> iv_end a = iv_end other"

definition interval_lt :: "'d Interval \<Rightarrow> 'd Interval \<Rightarrow> bool" where
  "interval_lt a other \<longleftrightarrow>
     (if iv_start a \<noteq> iv_start other then iv_start a < iv_start other
      else iv_end a < iv_end other)"

subsection \<open>class IntervalNode and the rotations\<close>

text \<open>
  \<open>ILeaf\<close> is Python's \<open>None\<close>.  A node carries its interval, the cached \<open>max_end\<close>,
  the two children and the cached height (the code only ever stores \<open>1 + max\<close> of two
  heights, so a natural number).
\<close>

datatype 'd IntervalNode =
    ILeaf
  | INode "'d Interval" int "'d IntervalNode" "'d IntervalNode" nat

fun i_height :: "'d IntervalNode \<Rightarrow> nat" where
  "i_height ILeaf = 0"
| "i_height (INode i m l r h) = h"

fun i_balance_factor :: "'d IntervalNode \<Rightarrow> int" where
  "i_balance_factor ILeaf = 0"
| "i_balance_factor (INode i m l r h) = int (i_height l) - int (i_height r)"

text \<open>
  \<open>_update_height_and_max\<close> overwrites both cached fields of a node from its interval
  and its children; the model builds the updated node from those three.
\<close>

fun max_with :: "int \<Rightarrow> 'd IntervalNode \<Rightarrow> int" where
  "max_with m ILeaf = m"
| "max_with m (INode i cm l r h) = max m cm"

definition i_update_height_and_max ::
  "'d Interval \<Rightarrow> 'd IntervalNode \<Rightarrow> 'd IntervalNode \<Rightarrow> 'd IntervalNode" where
  "i_update_height_and_max i l r =
     INode i (max_with (max_with (iv_end i) l) r) l r (1 + max (i_height l) (i_height r))"

text \<open>
  A rotation reads \<open>y.left.right\<close> (resp. \<open>x.right.left\<close>); on a missing child Python
  raises \<open>AttributeError\<close>.
\<close>

fun i_rotate_right :: "'d IntervalNode \<Rightarrow> error + 'd IntervalNode" where
  "i_rotate_right (INode yi ym (INode xi xm xl t2 xh) yr yh) =
     Inr (i_update_height_and_max xi xl (i_update_height_and_max yi t2 yr))"
| "i_rotate_right (INode yi ym ILeaf yr yh) = Inl AttributeError"
| "i_rotate_right ILeaf = Inl AttributeError"

fun i_rotate_left :: "'d IntervalNode \<Rightarrow> error + 'd IntervalNode" where
  "i_rotate_left (INode xi xm xl (INode yi ym t2 yr yh) xh) =
     Inr (i_update_height_and_max yi (i_update_height_and_max xi xl t2) yr)"
| "i_rotate_left (INode xi xm xl ILeaf xh) = Inl AttributeError"
| "i_rotate_left ILeaf = Inl AttributeError"

subsection \<open>insert\<close>

text \<open>
  The tail of \<open>_insert\<close> after the recursive call: update the node, then the four
  rotation cases, selected by comparing the inserted start with the child's start.
\<close>

definition i_insert_balance ::
  "'d Interval \<Rightarrow> 'd Interval \<Rightarrow> 'd IntervalNode \<Rightarrow> 'd IntervalNode \<Rightarrow> error + 'd IntervalNode" where
  "i_insert_balance iv i l r =
     (let node = i_update_height_and_max i l r;
          balance = i_balance_factor node in
      if balance > 1 then
        (case l of
           ILeaf \<Rightarrow> Inl AttributeError
         | INode li lm ll lr lh \<Rightarrow>
             if iv_start iv < iv_start li then i_rotate_right node
             else (case i_rotate_left l of
                     Inl e \<Rightarrow> Inl e
                   | Inr l' \<Rightarrow> i_rotate_right (i_update_height_and_max i l' r)))
      else if balance < -1 then
        (case r of
           ILeaf \<Rightarrow> Inl AttributeError
         | INode ri rm rl rr rh \<Rightarrow>
             if iv_start iv \<ge> iv_start ri then i_rotate_left node
             else (case i_rotate_right r of
                     Inl e \<Rightarrow> Inl e
                   | Inr r' \<Rightarrow> i_rotate_left (i_update_height_and_max i l r')))
      else Inr node)"

fun i_insert_rec :: "'d Interval \<Rightarrow> 'd IntervalNode \<Rightarrow> error + 'd IntervalNode" where
  "i_insert_rec iv ILeaf = Inr (INode iv (iv_end iv) ILeaf ILeaf 1)"
| "i_insert_rec iv (INode i m l r h) =
     (if iv_start iv < iv_start i then
        (case i_insert_rec iv l of
           Inl e \<Rightarrow> Inl e
         | Inr l' \<Rightarrow> i_insert_balance iv i l' r)
      else
        (case i_insert_rec iv r of
           Inl e \<Rightarrow> Inl e
         | Inr r' \<Rightarrow> i_insert_balance iv i l r'))"

record 'd IntervalTree =
  it_root :: "'d IntervalNode"
  it_size :: nat

definition IntervalTree_init :: "'d IntervalTree" where
  "IntervalTree_init = \<lparr>it_root = ILeaf, it_size = 0\<rparr>"

definition it_insert :: "'d Interval \<Rightarrow> 'd IntervalTree \<Rightarrow> error + (bool \<times> 'd IntervalTree)" where
  "it_insert iv t =
     (case i_insert_rec iv (it_root t) of
        Inl e \<Rightarrow> Inl e
      | Inr n \<Rightarrow> Inr (True, t\<lparr>it_root := n, it_size := it_size t + 1\<rparr>))"

subsection \<open>find\_overlapping and get\_all\_intervals\<close>

text \<open>
  \<open>_search\<close> appends to \<open>result\<close> in the order left subtree, node, right subtree; the
  model returns the appended list.  The guard \<open>if node.left\<close> only skips a call that
  would return at once.
\<close>

fun i_search :: "'d Interval \<Rightarrow> 'd IntervalNode \<Rightarrow> 'd Interval list" where
  "i_search q ILeaf = []"
| "i_search q (INode i m l r h) =
     (if m \<le> iv_start q then []
      else i_search q l
           @ (if overlaps i q then [i] else [])
           @ (if iv_start i < iv_end q then i_search q r else []))"

definition find_overlapping :: "'d IntervalTree \<Rightarrow> 'd Interval \<Rightarrow> 'd Interval list" where
  "find_overlapping t q = i_search q (it_root t)"

fun i_inorder :: "'d IntervalNode \<Rightarrow> 'd Interval list" where
  "i_inorder ILeaf = []"
| "i_inorder (INode i m l r h) = i_inorder l @ i # i_inorder r"

definition get_all_intervals :: "'d IntervalTree \<Rightarrow> 'd Interval list" where
  "get_all_intervals t = i_inorder (it_root t)"

subsection \<open>delete\<close>

text \<open>
  \<open>_find_min\<close> walks left from a node; the model takes the node's interval and left
  child and returns the interval of the leftmost node.
\<close>

fun i_find_min :: "'d Interval \<Rightarrow> 'd IntervalNode \<Rightarrow> 'd Interval" where
  "i_find_min i ILeaf = i"
| "i_find_min i (INode li lm ll lr lh) = i_find_min li ll"

definition i_delete_balance ::
  "'d Interval \<Rightarrow> 'd IntervalNode \<Rightarrow> 'd IntervalNode \<Rightarrow> error + 'd IntervalNode" where
  "i_delete_balance i l r =
     (let node = i_update_height_and_max i l r;
          balance = i_balance_factor node in
      if balance > 1 \<and> i_balance_factor l \<ge> 0 then i_rotate_right node
      else if balance > 1 \<and> i_balance_factor l < 0 then
        (case i_rotate_left l of
           Inl e \<Rightarrow> Inl e
         | Inr l' \<Rightarrow> i_rotate_right (i_update_height_and_max i l' r))
      else if balance < -1 \<and> i_balance_factor r \<le> 0 then i_rotate_left node
      else if balance < -1 \<and> i_balance_factor r > 0 then
        (case i_rotate_right r of
           Inl e \<Rightarrow> Inl e
         | Inr r' \<Rightarrow> i_rotate_left (i_update_height_and_max i l r'))
      else Inr node)"

fun i_delete_rec :: "'d Interval \<Rightarrow> 'd IntervalNode \<Rightarrow> error + 'd IntervalNode" where
  "i_delete_rec iv ILeaf = Inr ILeaf"
| "i_delete_rec iv (INode i m l r h) =
     (if interval_lt iv i then
        (case i_delete_rec iv l of
           Inl e \<Rightarrow> Inl e
         | Inr l' \<Rightarrow> i_delete_balance i l' r)
      else if iv_start iv > iv_start i \<or> (iv_start iv = iv_start i \<and> iv_end iv > iv_end i) then
        (case i_delete_rec iv r of
           Inl e \<Rightarrow> Inl e
         | Inr r' \<Rightarrow> i_delete_balance i l r')
      else if interval_eq iv i then
        (case l of
           ILeaf \<Rightarrow> Inr r
         | INode li lm ll lr lh \<Rightarrow>
            (case r of
               ILeaf \<Rightarrow> Inr l
             | INode ri rm rl rr rh \<Rightarrow>
                (case i_delete_rec (i_find_min ri rl) (INode ri rm rl rr rh) of
                   Inl e \<Rightarrow> Inl e
                 | Inr r' \<Rightarrow> i_delete_balance (i_find_min ri rl) l r')))
      else
        (case i_delete_rec iv r of
           Inl e \<Rightarrow> Inl e
         | Inr r' \<Rightarrow> i_delete_balance i l r'))"

fun i_count_nodes :: "'d IntervalNode \<Rightarrow> nat" where
  "i_count_nodes ILeaf = 0"
| "i_count_nodes (INode i m l r h) = 1 + i_count_nodes l + i_count_nodes r"

definition it_delete :: "'d Interval \<Rightarrow> 'd IntervalTree \<Rightarrow> error + (bool \<times> 'd IntervalTree)" where
  "it_delete iv t =
     (case i_delete_rec iv (it_root t) of
        Inl e \<Rightarrow> Inl e
      | Inr n \<Rightarrow>
          (if i_count_nodes n < it_size t
           then Inr (True, t\<lparr>it_root := n, it_size := i_count_nodes n\<rparr>)
           else Inr (False, t\<lparr>it_root := n\<rparr>)))"


section \<open>AVL tree (data\_structures/avl\_tree.py)\<close>

text \<open>
  \<open>ALeaf\<close> is Python's \<open>None\<close>; a node carries key, value, the two children and the
  cached height.  Keys are compared with the default \<open>_compare\<close>,
  \<open>(a > b) - (a < b)\<close>.  \<open>insert\<close> is modelled with an explicit value (the reservation
  system always passes one).
\<close>

datatype ('k, 'v) AVLNode =
    ALeaf
  | ANode 'k 'v "('k, 'v) AVLNode" "('k, 'v) AVLNode" nat

definition compare_default :: "'k::linorder \<Rightarrow> 'k \<Rightarrow> int" where
  "compare_default a b = (if a > b then 1 else 0) - (if a < b then 1 else 0)"

fun a_height :: "('k, 'v) AVLNode \<Rightarrow> nat" where
  "a_height ALeaf = 0"
| "a_height (ANode k v l r h) = h"

fun a_balance_factor :: "('k, 'v) AVLNode \<Rightarrow> int" where
  "a_balance_factor ALeaf = 0"
| "a_balance_factor (ANode k v l r h) = int (a_height l) - int (a_height r)"

definition a_update_height ::
  "'k \<Rightarrow> 'v \<Rightarrow> ('k, 'v) AVLNode \<Rightarrow> ('k, 'v) AVLNode \<Rightarrow> ('k, 'v) AVLNode" where
  "a_update_height k v l r = ANode k v l r (1 + max (a_height l) (a_height r))"

fun a_rotate_right :: "('k, 'v) AVLNode \<Rightarrow> error + ('k, 'v) AVLNode" where
  "a_rotate_right (ANode yk yv (ANode xk xv xl b xh) yr yh) =
     Inr (a_update_height xk xv xl (a_update_height yk yv b yr))"
| "a_rotate_right (ANode yk yv ALeaf yr yh) = Inl AttributeError"
| "a_rotate_right ALeaf = Inl AttributeError"

fun a_rotate_left :: "('k, 'v) AVLNode \<Rightarrow> error + ('k, 'v) AVLNode" where
  "a_rotate_left (ANode xk xv xl (ANode yk yv b yr yh) xh) =
     Inr (a_update_height yk yv (a_update_height xk xv xl b) yr)"
| "a_rotate_left (ANode xk xv xl ALeaf xh) = Inl AttributeError"
| "a_rotate_left ALeaf = Inl AttributeError"

text \<open>
  \<open>_rebalance(node, key)\<close>, called on the node just after \<open>_update_height\<close>; the model
  takes the node's fields.
\<close>

definition a_rebalance ::
  "'k::linorder \<Rightarrow> 'k \<Rightarrow> 'v \<Rightarrow> ('k, 'v) AVLNode \<Rightarrow> ('k, 'v) AVLNode \<Rightarrow> error + ('k, 'v) AVLNode" where
  "a_rebalance key k v l r =
     (let node = a_update_height k v l r;
          balance = a_balance_factor node in
      if balance > 1 then
        (case l of
           ALeaf \<Rightarrow> Inl AttributeError
         | ANode lk lv ll lr lh \<Rightarrow>
             if compare_default key lk < 0 then a_rotate_right node
             else if compare_default key lk > 0 then
               (case a_rotate_left l of
                  Inl e \<Rightarrow> Inl e
                | Inr l' \<Rightarrow> a_rotate_right (a_update_height k v l' r))
             else Inr node)
      else if balance < -1 then
        (case r of
           ALeaf \<Rightarrow> Inl AttributeError
         | ANode rk rv rl rr rh \<Rightarrow>
             if compare_default key rk > 0 then a_rotate_left node
             else if compare_default key rk < 0 then
               (case a_rotate_right r of
                  Inl e \<Rightarrow> Inl e
                | Inr r' \<Rightarrow> a_rotate_left (a_update_height k v l r'))
             else Inr node)
      else Inr node)"

fun a_insert_rec :: "'k::linorder \<Rightarrow> 'v \<Rightarrow> ('k, 'v) AVLNode \<Rightarrow> error + ('k, 'v) AVLNode" where
  "a_insert_rec key val ALeaf = Inr (ANode key val ALeaf ALeaf 1)"
| "a_insert_rec key val (ANode k v l r h) =
     (if compare_default key k < 0 then
        (case a_insert_rec key val l of
           Inl e \<Rightarrow> Inl e
         | Inr l' \<Rightarrow> a_rebalance key k v l' r)
      else if compare_default key k > 0 then
        (case a_insert_rec key val r of
           Inl e \<Rightarrow> Inl e
         | Inr r' \<Rightarrow> a_rebalance key k v l r')
      else Inr (ANode k val l r h))"

record ('k, 'v) AVLTree =
  avl_root :: "('k, 'v) AVLNode"
  avl_size :: int

definition AVLTree_init :: "('k, 'v) AVLTree" where
  "AVLTree_init = \<lparr>avl_root = ALeaf, avl_size = 0\<rparr>"

text \<open>
  \<open>insert\<close>: \<open>self.size += 1\<close> runs on every call, and the returned
  \<open>self.size > old_size\<close> is therefore always \<open>True\<close>.
\<close>

definition avl_insert ::
  "'k::linorder \<Rightarrow> 'v \<Rightarrow> ('k, 'v) AVLTree \<Rightarrow> error + (bool \<times> ('k, 'v) AVLTree)" where
  "avl_insert key val t =
     (case a_insert_rec key val (avl_root t) of
        Inl e \<Rightarrow> Inl e
      | Inr n \<Rightarrow> Inr (avl_size t + 1 > avl_size t, t\<lparr>avl_root := n, avl_size := avl_size t + 1\<rparr>))"

fun a_search_node :: "'k::linorder \<Rightarrow> ('k, 'v) AVLNode \<Rightarrow> ('k, 'v) AVLNode" where
  "a_search_node key ALeaf = ALeaf"
| "a_search_node key (ANode k v l r h) =
     (if compare_default key k < 0 then a_search_node key l
      else if compare_default key k > 0 then a_search_node key r
      else ANode k v l r h)"

definition avl_search :: "('k::linorder, 'v) AVLTree \<Rightarrow> 'k \<Rightarrow> 'v option" where
  "avl_search t key =
     (case a_search_node key (avl_root t) of ALeaf \<Rightarrow> None | ANode k v l r h \<Rightarrow> Some v)"

definition avl_contains :: "('k::linorder, 'v) AVLTree \<Rightarrow> 'k \<Rightarrow> bool" where
  "avl_contains t key = (a_search_node key (avl_root t) \<noteq> ALeaf)"

text \<open>\<open>_find_min\<close> from a node given by its key, value and left child.\<close>

fun a_find_min :: "'k \<Rightarrow> 'v \<Rightarrow> ('k, 'v) AVLNode \<Rightarrow> 'k \<times> 'v" where
  "a_find_min k v ALeaf = (k, v)"
| "a_find_min k v (ANode lk lv ll lr lh) = a_find_min lk lv ll"

definition a_delete_balance ::
  "'k \<Rightarrow> 'v \<Rightarrow> ('k, 'v) AVLNode \<Rightarrow> ('k, 'v) AVLNode \<Rightarrow> error + ('k, 'v) AVLNode" where
  "a_delete_balance k v l r =
     (let node = a_update_height k v l r;
          balance = a_balance_factor node in
      if balance > 1 \<and> a_balance_factor l \<ge> 0 then a_rotate_right node
      else if balance > 1 \<and> a_balance_factor l < 0 then
        (case a_rotate_left l of
           Inl e \<Rightarrow> Inl e
         | Inr l' \<Rightarrow> a_rotate_right (a_update_height k v l' r))
      else if balance < -1 \<and> a_balance_factor r \<le> 0 then a_rotate_left node
      else if balance < -1 \<and> a_balance_factor r > 0 then
        (case a_rotate_right r of
           Inl e \<Rightarrow> Inl e
         | Inr r' \<Rightarrow> a_rotate_left (a_update_height k v l r'))
      else Inr node)"

fun a_delete_rec :: "'k::linorder \<Rightarrow> ('k, 'v) AVLNode \<Rightarrow> error + ('k, 'v) AVLNode" where
  "a_delete_rec key ALeaf = Inr ALeaf"
| "a_delete_rec key (ANode k v l r h) =
     (if compare_default key k < 0 then
        (case a_delete_rec key l of
           Inl e \<Rightarrow> Inl e
         | Inr l' \<Rightarrow> a_delete_balance k v l' r)
      else if compare_default key k > 0 then
        (case a_delete_rec key r of
           Inl e \<Rightarrow> Inl e
         | Inr r' \<Rightarrow> a_delete_balance k v l r')
      else
        (case l of
           ALeaf \<Rightarrow> Inr r
         | ANode lk lv ll lr lh \<Rightarrow>
            (case r of
               ALeaf \<Rightarrow> Inr l
             | ANode rk rv rl rr rh \<Rightarrow>
                (case a_delete_rec (fst (a_find_min rk rv rl)) (ANode rk rv rl rr rh) of
                   Inl e \<Rightarrow> Inl e
                 | Inr r' \<Rightarrow>
                     a_delete_balance (fst (a_find_min rk rv rl)) (snd (a_find_min rk rv rl)) l r'))))"

definition avl_delete ::
  "'k::linorder \<Rightarrow> ('k, 'v) AVLTree \<Rightarrow> error + (bool \<times> ('k, 'v) AVLTree)" where
  "avl_delete key t =
     (if \<not> avl_contains t key then Inr (False, t)
      else (case a_delete_rec key (avl_root t) of
              Inl e \<Rightarrow> Inl e
            | Inr n \<Rightarrow> Inr (True, t\<lparr>avl_root := n, avl_size := avl_size t - 1\<rparr>)))"

fun a_inorder :: "('k, 'v) AVLNode \<Rightarrow> ('k \<times> 'v) list" where
  "a_inorder ALeaf = []"
| "a_inorder (ANode k v l r h) = a_inorder l @ (k, v) # a_inorder r"

definition inorder_traversal :: "('k, 'v) AVLTree \<Rightarrow> ('k \<times> 'v) list" where
  "inorder_traversal t = a_inorder (avl_root t)"

section \<open>Stack and UndoRedoManager (data\_structures/stack\_queue.py)\<close>

text \<open>
  A stack's \<open>_items\<close> list has its top at the end.  \<open>max_size\<close> is \<open>None\<close> or an integer;
  \<open>push\<close> tests it for truth first, so \<open>None\<close> and \<open>0\<close> both mean unbounded.
\<close>

record 'a Stack =
  st_items :: "'a list"
  st_max_size :: "int option"

definition Stack_init :: "int option \<Rightarrow> 'a Stack" where
  "Stack_init m = \<lparr>st_items = [], st_max_size = m\<rparr>"

definition stack_push :: "'a \<Rightarrow> 'a Stack \<Rightarrow> bool \<times> 'a Stack" where
  "stack_push item s =
     (if (case st_max_size s of
            None \<Rightarrow> False
          | Some m \<Rightarrow> m \<noteq> 0 \<and> int (length (st_items s)) \<ge> m)
      then (False, s)
      else (True, s\<lparr>st_items := st_items s @ [item]\<rparr>))"

definition stack_pop :: "'a Stack \<Rightarrow> error + ('a \<times> 'a Stack)" where
  "stack_pop s =
     (if st_items s = [] then Inl IndexError
      else Inr (last (st_items s), s\<lparr>st_items := butlast (st_items s)\<rparr>))"

definition stack_is_empty :: "'a Stack \<Rightarrow> bool" where
  "stack_is_empty s = (length (st_items s) = 0)"

definition stack_clear :: "'a Stack \<Rightarrow> 'a Stack" where
  "stack_clear s = s\<lparr>st_items := []\<rparr>"

section \<open>Data model of the reservation system (reservation\_system.py)\<close>

datatype ReservationStatus = PENDING | CONFIRMED | CANCELLED | COMPLETED | NO_SHOW

datatype RoomType = MEETING | CONFERENCE | TRAINING | EXECUTIVE | AUDITORIUM

text \<open>
  A \<open>datetime\<close> is its timestamp in whole seconds; \<open>_datetime_to_minutes\<close> is
  \<open>int(dt.timestamp() / 60)\<close>, which truncates towards zero.
\<close>

type_synonym datetime = int

definition datetime_to_minutes :: "datetime \<Rightarrow> int" where
  "datetime_to_minutes dt = (if 0 \<le> dt then dt div 60 else - ((- dt) div 60))"

record Room =
  rm_id :: string
  rm_name :: string
  rm_capacity :: int
  rm_room_type :: RoomType
  rm_floor :: int
  rm_amenities :: "string list"
  rm_hourly_rate :: int
  rm_is_active :: bool

record Reservation =
  rs_id :: string
  rs_room_id :: string
  rs_customer_name :: string
  rs_customer_email :: string
  rs_start_time :: datetime
  rs_end_time :: datetime
  rs_status :: ReservationStatus
  rs_priority :: int
  rs_title :: string
  rs_description :: string
  rs_attendees :: int
  rs_created_at :: datetime
  rs_updated_at :: datetime

text \<open>
  \<open>to_dict\<close> copies every field of the dataclass into a dictionary and \<open>from_dict\<close>
  builds a new object from all of them, so a snapshot is the record value itself.
  (\<open>hourly_rate\<close> is a float that the modelled operations only store and copy; it is
  carried as an integer amount.)
\<close>

section \<open>Undo and redo (data\_structures/stack\_queue.py)\<close>

datatype ActionType = CREATE | UPDATE | DELETE | BATCH

text \<open>
  \<open>old_state\<close> and \<open>new_state\<close> are \<open>Any\<close>: \<open>None\<close>, a room or reservation snapshot, or,
  for a batch action, the list of the buffered actions.  The \<open>timestamp\<close> field is never
  read and is left out.
\<close>

datatype state_val =
    NoState
  | RoomState Room
  | ReservationState Reservation
  | SubActions "Action list"
and Action =
    Action (action_type: ActionType) (entity_type: string) (entity_id: "string option")
           (old_state: state_val) (new_state: state_val) (description: string)

record UndoRedoManager =
  um_undo_stack :: "Action Stack"
  um_redo_stack :: "Action Stack"
  um_max_history :: int
  um_batch_mode :: bool
  um_batch_actions :: "Action list"

definition UndoRedoManager_init :: "int \<Rightarrow> UndoRedoManager" where
  "UndoRedoManager_init max_history =
     \<lparr>um_undo_stack = Stack_init (Some max_history),
      um_redo_stack = Stack_init (Some max_history),
      um_max_history = max_history,
      um_batch_mode = False,
      um_batch_actions = []\<rparr>"

text \<open>The result of \<open>push\<close> is ignored by \<open>record_action\<close>, as in the source.\<close>

definition record_action :: "Action \<Rightarrow> UndoRedoManager \<Rightarrow> UndoRedoManager" where
  "record_action a m =
     (if um_batch_mode m then m\<lparr>um_batch_actions := um_batch_actions m @ [a]\<rparr>
      else m\<lparr>um_undo_stack := snd (stack_push a (um_undo_stack m)),
             um_redo_stack := stack_clear (um_redo_stack m)\<rparr>)"

definition record_create ::
  "string \<Rightarrow> string \<Rightarrow> state_val \<Rightarrow> string \<Rightarrow> UndoRedoManager \<Rightarrow> UndoRedoManager" where
  "record_create etype eid new_st desc m =
     record_action (Action CREATE etype (Some eid) NoState new_st desc) m"

definition record_update ::
  "string \<Rightarrow> string \<Rightarrow> state_val \<Rightarrow> state_val \<Rightarrow> string \<Rightarrow> UndoRedoManager \<Rightarrow> UndoRedoManager" where
  "record_update etype eid old_st new_st desc m =
     record_action (Action UPDATE etype (Some eid) old_st new_st desc) m"

definition record_delete ::
  "string \<Rightarrow> string \<Rightarrow> state_val \<Rightarrow> string \<Rightarrow> UndoRedoManager \<Rightarrow> UndoRedoManager" where
  "record_delete etype eid old_st desc m =
     record_action (Action DELETE etype (Some eid) old_st NoState desc) m"

definition begin_batch :: "UndoRedoManager \<Rightarrow> UndoRedoManager" where
  "begin_batch m = m\<lparr>um_batch_mode := True, um_batch_actions := []\<rparr>"

definition end_batch :: "string \<Rightarrow> UndoRedoManager \<Rightarrow> UndoRedoManager" where
  "end_batch desc m =
     (if \<not> um_batch_mode m then m
      else
        (let m1 = m\<lparr>um_batch_mode := False\<rparr>;
             m2 = (if um_batch_actions m1 \<noteq> [] then
                     m1\<lparr>um_undo_stack :=
                          snd (stack_push
                                 (Action BATCH ''batch'' None (SubActions (um_batch_actions m1))
                                    NoState desc)
                                 (um_undo_stack m1)),
                        um_redo_stack := stack_clear (um_redo_stack m1)\<rparr>
                   else m1)
         in m2\<lparr>um_batch_actions := []\<rparr>))"

definition can_undo :: "UndoRedoManager \<Rightarrow> bool" where
  "can_undo m = (\<not> stack_is_empty (um_undo_stack m))"

definition can_redo :: "UndoRedoManager \<Rightarrow> bool" where
  "can_redo m = (\<not> stack_is_empty (um_redo_stack m))"

definition um_undo :: "UndoRedoManager \<Rightarrow> Action option \<times> UndoRedoManager" where
  "um_undo m =
     (if \<not> can_undo m then (None, m)
      else (case stack_pop (um_undo_stack m) of
              Inl e \<Rightarrow> (None, m)
            | Inr (a, st) \<Rightarrow>
                (Some a, m\<lparr>um_undo_stack := st,
                           um_redo_stack := snd (stack_push a (um_redo_stack m))\<rparr>)))"

definition um_redo :: "UndoRedoManager \<Rightarrow> Action option \<times> UndoRedoManager" where
  "um_redo m =
     (if \<not> can_redo m then (None, m)
      else (case stack_pop (um_redo_stack m) of
              Inl e \<Rightarrow> (None, m)
            | Inr (a, st) \<Rightarrow>
                (Some a, m\<lparr>um_redo_stack := st,
                           um_undo_stack := snd (stack_push a (um_undo_stack m))\<rparr>)))"

section \<open>ReservationSystem (reservation\_system.py)\<close>

text \<open>
  Python shares one mutable \<open>Reservation\<close> object between \<open>_reservations\<close>,
  \<open>_reservation_tree\<close> and the \<open>data\<close> of its interval, so the model keeps the objects
  in a store \<open>s_heap\<close> indexed by reference, and the three containers hold references;
  \<open>s_next_ref\<close> is the next unused reference.  \<open>Room\<close> objects are not mutated by the
  modelled operations and are held by value.  The pending queue, building graph,
  waiting list and action log are collaborators that none of the modelled operations
  reads, and are left out.  Strings written by the system have their Turkish letters
  transliterated to ASCII.
\<close>

record ReservationSystem =
  s_rooms :: "string \<rightharpoonup> Room"
  s_room_tree :: "(string, Room) AVLTree"
  s_reservations :: "string \<rightharpoonup> nat"
  s_reservation_tree :: "(string, nat) AVLTree"
  s_room_intervals :: "string \<rightharpoonup> nat IntervalTree"
  s_undo_manager :: UndoRedoManager
  s_heap :: "nat \<Rightarrow> Reservation"
  s_next_ref :: nat

text \<open>A reference that has not been allocated yet holds a blank reservation.\<close>

definition blank_reservation :: Reservation where
  "blank_reservation =
     \<lparr>rs_id = [], rs_room_id = [], rs_customer_name = [], rs_customer_email = [],
      rs_start_time = 0, rs_end_time = 0, rs_status = PENDING, rs_priority = 2,
      rs_title = [], rs_description = [], rs_attendees = 1, rs_created_at = 0,
      rs_updated_at = 0\<rparr>"

definition ReservationSystem_init :: ReservationSystem where
  "ReservationSystem_init =
     \<lparr>s_rooms = Map.empty,
      s_room_tree = AVLTree_init,
      s_reservations = Map.empty,
      s_reservation_tree = AVLTree_init,
      s_room_intervals = Map.empty,
      s_undo_manager = UndoRedoManager_init 100,
      s_heap = (\<lambda>a. blank_reservation),
      s_next_ref = 0\<rparr>"

text \<open>
  The \<open>(bool, str)\<close> results: the message texts are represented by their kind and
  parameters.
\<close>

datatype message =
    RoomNotFound
  | RoomNotActive
  | CapacityExceeded int
  | ConflictFound "string list"
  | ReservationCreated string
  | ReservationNotFound
  | UpdateConflict
  | ReservationUpdated
  | AlreadyCancelled
  | ReservationCancelled

text \<open>
  An operation returns \<open>Inr (result, state)\<close>, or \<open>Inl (exception, state)\<close> with the
  state reached when the exception was raised.
\<close>

type_synonym 'a outcome = "(error \<times> ReservationSystem) + ('a \<times> ReservationSystem)"

definition reservation_interval :: "Reservation \<Rightarrow> nat \<Rightarrow> error + nat Interval" where
  "reservation_interval r a =
     Interval_init (datetime_to_minutes (rs_start_time r)) (datetime_to_minutes (rs_end_time r))
       (Some a)"

definition get_room :: "ReservationSystem \<Rightarrow> string \<Rightarrow> Room option" where
  "get_room s room_id = avl_search (s_room_tree s) room_id"

definition reservation_ref :: "ReservationSystem \<Rightarrow> string \<Rightarrow> nat option" where
  "reservation_ref s reservation_id = avl_search (s_reservation_tree s) reservation_id"

definition get_reservation :: "ReservationSystem \<Rightarrow> string \<Rightarrow> Reservation option" where
  "get_reservation s reservation_id = map_option (s_heap s) (reservation_ref s reservation_id)"

definition add_room :: "Room \<Rightarrow> ReservationSystem \<Rightarrow> bool outcome" where
  "add_room room s =
     (if rm_id room \<in> dom (s_rooms s) then Inr (False, s)
      else
        (let s1 = s\<lparr>s_rooms := (s_rooms s)(rm_id room \<mapsto> room)\<rparr> in
         case avl_insert (rm_id room) room (s_room_tree s1) of
           Inl e \<Rightarrow> Inl (e, s1)
         | Inr (b, t) \<Rightarrow>
             Inr (True,
                  s1\<lparr>s_room_tree := t,
                     s_room_intervals := (s_room_intervals s1)(rm_id room \<mapsto> IntervalTree_init),
                     s_undo_manager :=
                       record_create ''room'' (rm_id room) (RoomState room)
                         (''Salon eklendi: '' @ rm_name room) (s_undo_manager s1)\<rparr>)))"

text \<open>
  \<open>check_conflict\<close>: the loop keeps a reservation found through an overlapping interval
  unless it is the excluded one or its status is \<open>CANCELLED\<close> or \<open>COMPLETED\<close>.
\<close>

definition is_conflict :: "ReservationSystem \<Rightarrow> string option \<Rightarrow> nat \<Rightarrow> bool" where
  "is_conflict s exclude_id a =
     ((exclude_id = None \<or> Some (rs_id (s_heap s a)) \<noteq> exclude_id)
      \<and> rs_status (s_heap s a) \<notin> set [CANCELLED, COMPLETED])"

definition check_conflict ::
  "ReservationSystem \<Rightarrow> string \<Rightarrow> datetime \<Rightarrow> datetime \<Rightarrow> string option \<Rightarrow> error + nat list" where
  "check_conflict s room_id start_time end_time exclude_id =
     (case s_room_intervals s room_id of
        None \<Rightarrow> Inr []
      | Some tree \<Rightarrow>
         (case Interval_init (datetime_to_minutes start_time) (datetime_to_minutes end_time) None of
            Inl e \<Rightarrow> Inl e
          | Inr q \<Rightarrow>
              Inr (filter (is_conflict s exclude_id)
                     (List.map_filter iv_data (find_overlapping tree q)))))"

definition conflict_name :: "ReservationSystem \<Rightarrow> nat \<Rightarrow> string" where
  "conflict_name s a =
     (if rs_title (s_heap s a) \<noteq> [] then rs_title (s_heap s a)
      else rs_customer_name (s_heap s a))"

definition create_reservation :: "Reservation \<Rightarrow> ReservationSystem \<Rightarrow> (bool \<times> message) outcome" where
  "create_reservation r s =
     (case get_room s (rs_room_id r) of
        None \<Rightarrow> Inr ((False, RoomNotFound), s)
      | Some room \<Rightarrow>
         if \<not> rm_is_active room then Inr ((False, RoomNotActive), s)
         else if rs_attendees r > rm_capacity room
           then Inr ((False, CapacityExceeded (rm_capacity room)), s)
         else
          (case check_conflict s (rs_room_id r) (rs_start_time r) (rs_end_time r) None of
             Inl e \<Rightarrow> Inl (e, s)
           | Inr conflicts \<Rightarrow>
              if conflicts \<noteq> [] then
                Inr ((False, ConflictFound (map (conflict_name s) conflicts)), s)
              else
               (let a = s_next_ref s;
                    s1 = s\<lparr>s_heap := (s_heap s)(a := r), s_next_ref := a + 1,
                           s_reservations := (s_reservations s)(rs_id r \<mapsto> a)\<rparr> in
                case avl_insert (rs_id r) a (s_reservation_tree s1) of
                  Inl e \<Rightarrow> Inl (e, s1)
                | Inr (b, t) \<Rightarrow>
                   (let s2 = s1\<lparr>s_reservation_tree := t\<rparr> in
                    case reservation_interval r a of
                      Inl e \<Rightarrow> Inl (e, s2)
                    | Inr iv \<Rightarrow>
                       (case s_room_intervals s2 (rs_room_id r) of
                          None \<Rightarrow> Inl (KeyError, s2)
                        | Some tree \<Rightarrow>
                           (case it_insert iv tree of
                              Inl e \<Rightarrow> Inl (e, s2)
                            | Inr (b', tree') \<Rightarrow>
                                Inr ((True, ReservationCreated (rs_id r)),
                                     s2\<lparr>s_room_intervals :=
                                          (s_room_intervals s2)(rs_room_id r \<mapsto> tree'),
                                        s_undo_manager :=
                                          record_create ''reservation'' (rs_id r)
                                            (ReservationState r)
                                            (''Rezervasyon olusturuldu: '' @ rs_title r)
                                            (s_undo_manager s2)\<rparr>)))))))"

definition cancel_reservation ::
  "string \<Rightarrow> datetime \<Rightarrow> ReservationSystem \<Rightarrow> (bool \<times> message) outcome" where
  "cancel_reservation reservation_id now s =
     (case reservation_ref s reservation_id of
        None \<Rightarrow> Inr ((False, ReservationNotFound), s)
      | Some a \<Rightarrow>
         (let old = s_heap s a in
          if rs_status old = CANCELLED then Inr ((False, AlreadyCancelled), s)
          else
           (let new = old\<lparr>rs_status := CANCELLED, rs_updated_at := now\<rparr>;
                s1 = s\<lparr>s_heap := (s_heap s)(a := new)\<rparr> in
            case reservation_interval new a of
              Inl e \<Rightarrow> Inl (e, s1)
            | Inr iv \<Rightarrow>
               (case s_room_intervals s1 (rs_room_id new) of
                  None \<Rightarrow> Inl (KeyError, s1)
                | Some tree \<Rightarrow>
                   (case it_delete iv tree of
                      Inl e \<Rightarrow> Inl (e, s1)
                    | Inr (b, tree') \<Rightarrow>
                        Inr ((True, ReservationCancelled),
                             s1\<lparr>s_room_intervals :=
                                  (s_room_intervals s1)(rs_room_id new \<mapsto> tree'),
                                s_undo_manager :=
                                  record_update ''reservation'' reservation_id
                                    (ReservationState old) (ReservationState new)
                                    (''Rezervasyon iptal edildi: '' @ rs_title new)
                                    (s_undo_manager s1)\<rparr>))))))"

text \<open>
  \<open>update_reservation(reservation_id, **kwargs)\<close>: the keyword arguments are the
  assignments to dataclass fields, in order (other keys are skipped by \<open>hasattr\<close>).
\<close>

datatype kwarg =
    KW_id string
  | KW_room_id string
  | KW_customer_name string
  | KW_customer_email string
  | KW_start_time datetime
  | KW_end_time datetime
  | KW_status ReservationStatus
  | KW_priority int
  | KW_title string
  | KW_description string
  | KW_attendees int
  | KW_created_at datetime
  | KW_updated_at datetime

fun apply_kwarg :: "kwarg \<Rightarrow> Reservation \<Rightarrow> Reservation" where
  "apply_kwarg (KW_id v) r = r\<lparr>rs_id := v\<rparr>"
| "apply_kwarg (KW_room_id v) r = r\<lparr>rs_room_id := v\<rparr>"
| "apply_kwarg (KW_customer_name v) r = r\<lparr>rs_customer_name := v\<rparr>"
| "apply_kwarg (KW_customer_email v) r = r\<lparr>rs_customer_email := v\<rparr>"
| "apply_kwarg (KW_start_time v) r = r\<lparr>rs_start_time := v\<rparr>"
| "apply_kwarg (KW_end_time v) r = r\<lparr>rs_end_time := v\<rparr>"
| "apply_kwarg (KW_status v) r = r\<lparr>rs_status := v\<rparr>"
| "apply_kwarg (KW_priority v) r = r\<lparr>rs_priority := v\<rparr>"
| "apply_kwarg (KW_title v) r = r\<lparr>rs_title := v\<rparr>"
| "apply_kwarg (KW_description v) r = r\<lparr>rs_description := v\<rparr>"
| "apply_kwarg (KW_attendees v) r = r\<lparr>rs_attendees := v\<rparr>"
| "apply_kwarg (KW_created_at v) r = r\<lparr>rs_created_at := v\<rparr>"
| "apply_kwarg (KW_updated_at v) r = r\<lparr>rs_updated_at := v\<rparr>"

fun touches_timing :: "kwarg \<Rightarrow> bool" where
  "touches_timing (KW_start_time v) = True"
| "touches_timing (KW_end_time v) = True"
| "touches_timing (KW_room_id v) = True"
| "touches_timing kw = False"

text \<open>The tail of \<open>update_reservation\<close>: insert the new interval and record the update.\<close>

definition update_finish ::
  "string \<Rightarrow> nat \<Rightarrow> Reservation \<Rightarrow> ReservationSystem \<Rightarrow> (bool \<times> message) outcome" where
  "update_finish reservation_id a old s1 =
     (let new = s_heap s1 a in
      case reservation_interval new a of
        Inl e \<Rightarrow> Inl (e, s1)
      | Inr iv \<Rightarrow>
         (case s_room_intervals s1 (rs_room_id new) of
            None \<Rightarrow> Inl (KeyError, s1)
          | Some tree \<Rightarrow>
             (case it_insert iv tree of
                Inl e \<Rightarrow> Inl (e, s1)
              | Inr (b, tree') \<Rightarrow>
                  Inr ((True, ReservationUpdated),
                       s1\<lparr>s_room_intervals := (s_room_intervals s1)(rs_room_id new \<mapsto> tree'),
                          s_undo_manager :=
                            record_update ''reservation'' reservation_id
                              (ReservationState old) (ReservationState new)
                              (''Rezervasyon guncellendi: '' @ rs_title new)
                              (s_undo_manager s1)\<rparr>))))"

definition update_reservation ::
  "string \<Rightarrow> kwarg list \<Rightarrow> datetime \<Rightarrow> ReservationSystem \<Rightarrow> (bool \<times> message) outcome" where
  "update_reservation reservation_id kwargs now s =
     (case reservation_ref s reservation_id of
        None \<Rightarrow> Inr ((False, ReservationNotFound), s)
      | Some a \<Rightarrow>
         (let old = s_heap s a in
          case reservation_interval old a of
            Inl e \<Rightarrow> Inl (e, s)
          | Inr old_interval \<Rightarrow>
             (case s_room_intervals s (rs_room_id old) of
                None \<Rightarrow> Inl (KeyError, s)
              | Some tree \<Rightarrow>
                 (case it_delete old_interval tree of
                    Inl e \<Rightarrow> Inl (e, s)
                  | Inr (b, tree') \<Rightarrow>
                     (let patched = (fold apply_kwarg kwargs old)\<lparr>rs_updated_at := now\<rparr>;
                          s1 = s\<lparr>s_room_intervals := (s_room_intervals s)(rs_room_id old \<mapsto> tree'),
                                 s_heap := (s_heap s)(a := patched)\<rparr> in
                      if list_ex touches_timing kwargs then
                        (case check_conflict s1 (rs_room_id patched) (rs_start_time patched)
                                (rs_end_time patched) (Some reservation_id) of
                           Inl e \<Rightarrow> Inl (e, s1)
                         | Inr conflicts \<Rightarrow>
                            if conflicts \<noteq> [] then
                              (let s2 = s1\<lparr>s_heap := (s_heap s1)(a := old)\<rparr> in
                               case s_room_intervals s2 (rs_room_id old) of
                                 None \<Rightarrow> Inl (KeyError, s2)
                               | Some t2 \<Rightarrow>
                                  (case it_insert old_interval t2 of
                                     Inl e \<Rightarrow> Inl (e, s2)
                                   | Inr (b2, t3) \<Rightarrow>
                                       Inr ((False, UpdateConflict),
                                            s2\<lparr>s_room_intervals :=
                                                 (s_room_intervals s2)(rs_room_id old \<mapsto> t3)\<rparr>)))
                            else update_finish reservation_id a old s1)
                      else update_finish reservation_id a old s1)))))"

definition delete_reservation :: "string \<Rightarrow> ReservationSystem \<Rightarrow> bool outcome" where
  "delete_reservation reservation_id s =
     (case reservation_ref s reservation_id of
        None \<Rightarrow> Inr (False, s)
      | Some a \<Rightarrow>
         (let old = s_heap s a in
          case reservation_interval old a of
            Inl e \<Rightarrow> Inl (e, s)
          | Inr iv \<Rightarrow>
             (case s_room_intervals s (rs_room_id old) of
                None \<Rightarrow> Inl (KeyError, s)
              | Some tree \<Rightarrow>
                 (case it_delete iv tree of
                    Inl e \<Rightarrow> Inl (e, s)
                  | Inr (b, tree') \<Rightarrow>
                     (let s1 = s\<lparr>s_room_intervals := (s_room_intervals s)(rs_room_id old \<mapsto> tree')\<rparr> in
                      if reservation_id \<notin> dom (s_reservations s1) then Inl (KeyError, s1)
                      else
                       (let s2 = s1\<lparr>s_reservations := (s_reservations s1)(reservation_id := None)\<rparr> in
                        case avl_delete reservation_id (s_reservation_tree s2) of
                          Inl e \<Rightarrow> Inl (e, s2)
                        | Inr (b2, t) \<Rightarrow>
                            Inr (True,
                                 s2\<lparr>s_reservation_tree := t,
                                    s_undo_manager :=
                                      record_delete ''reservation'' reservation_id
                                        (ReservationState old)
                                        (''Rezervasyon silindi: '' @ rs_title old)
                                        (s_undo_manager s2)\<rparr>)))))))"

definition delete_room :: "string \<Rightarrow> ReservationSystem \<Rightarrow> bool outcome" where
  "delete_room room_id s =
     (case get_room s room_id of
        None \<Rightarrow> Inr (False, s)
      | Some room \<Rightarrow>
         if (case s_room_intervals s room_id of None \<Rightarrow> False | Some tree \<Rightarrow> it_size tree > 0)
         then Inr (False, s)
         else if room_id \<notin> dom (s_rooms s) then Inl (KeyError, s)
         else
          (let s1 = s\<lparr>s_rooms := (s_rooms s)(room_id := None)\<rparr> in
           case avl_delete room_id (s_room_tree s1) of
             Inl e \<Rightarrow> Inl (e, s1)
           | Inr (b, t) \<Rightarrow>
              (let s2 = s1\<lparr>s_room_tree := t\<rparr> in
               if room_id \<notin> dom (s_room_intervals s2) then Inl (KeyError, s2)
               else
                 Inr (True,
                      s2\<lparr>s_room_intervals := (s_room_intervals s2)(room_id := None),
                         s_undo_manager :=
                           record_delete ''room'' room_id (RoomState room)
                             (''Salon silindi: '' @ rm_name room) (s_undo_manager s2)\<rparr>))))"

subsection \<open>Undo and redo in the reservation system\<close>

text \<open>
  The internal paths used by undo and redo return \<open>Inr state\<close> or \<open>Inl (exception, state)\<close>.
  \<open>from_dict\<close> on a state that is not a snapshot of the right kind raises \<open>TypeError\<close>.
\<close>

definition force_delete_reservation ::
  "string \<Rightarrow> ReservationSystem \<Rightarrow> (error \<times> ReservationSystem) + ReservationSystem" where
  "force_delete_reservation reservation_id s =
     (case s_reservations s reservation_id of
        None \<Rightarrow> Inr s
      | Some a \<Rightarrow>
         (let res = s_heap s a in
          case reservation_interval res a of
            Inl e \<Rightarrow> Inl (e, s)
          | Inr iv \<Rightarrow>
             (case (case s_room_intervals s (rs_room_id res) of
                      None \<Rightarrow> Inr s
                    | Some tree \<Rightarrow>
                       (case it_delete iv tree of
                          Inl e \<Rightarrow> Inl (e, s)
                        | Inr (b, tree') \<Rightarrow>
                            Inr (s\<lparr>s_room_intervals :=
                                     (s_room_intervals s)(rs_room_id res \<mapsto> tree')\<rparr>))) of
                Inl x \<Rightarrow> Inl x
              | Inr s1 \<Rightarrow>
                 (let s2 = s1\<lparr>s_reservations := (s_reservations s1)(reservation_id := None)\<rparr> in
                  case avl_delete reservation_id (s_reservation_tree s2) of
                    Inl e \<Rightarrow> Inl (e, s2)
                  | Inr (b, t) \<Rightarrow> Inr (s2\<lparr>s_reservation_tree := t\<rparr>)))))"

definition force_delete_room ::
  "string \<Rightarrow> ReservationSystem \<Rightarrow> (error \<times> ReservationSystem) + ReservationSystem" where
  "force_delete_room room_id s =
     (if room_id \<in> dom (s_rooms s) then
        (let s1 = s\<lparr>s_rooms := (s_rooms s)(room_id := None)\<rparr> in
         case avl_delete room_id (s_room_tree s1) of
           Inl e \<Rightarrow> Inl (e, s1)
         | Inr (b, t) \<Rightarrow>
             Inr (s1\<lparr>s_room_tree := t,
                     s_room_intervals := (s_room_intervals s1)(room_id := None)\<rparr>))
      else Inr s)"

definition restore_reservation ::
  "string \<Rightarrow> state_val \<Rightarrow> bool \<Rightarrow> ReservationSystem \<Rightarrow> (error \<times> ReservationSystem) + ReservationSystem" where
  "restore_reservation reservation_id state create s =
     (case state of
        ReservationState reservation \<Rightarrow>
         (let a = s_next_ref s;
              s0 = s\<lparr>s_heap := (s_heap s)(a := reservation), s_next_ref := a + 1\<rparr> in
          case (if create \<or> reservation_id \<notin> dom (s_reservations s0) then
                  (let s1 = s0\<lparr>s_reservations := (s_reservations s0)(reservation_id \<mapsto> a)\<rparr> in
                   case avl_insert reservation_id a (s_reservation_tree s1) of
                     Inl e \<Rightarrow> Inl (e, s1)
                   | Inr (b, t) \<Rightarrow> Inr (s1\<lparr>s_reservation_tree := t\<rparr>))
                else
                  (case s_reservations s0 reservation_id of
                     None \<Rightarrow> Inl (KeyError, s0)
                   | Some old_a \<Rightarrow>
                      (let old_res = s_heap s0 old_a in
                       case reservation_interval old_res old_a of
                         Inl e \<Rightarrow> Inl (e, s0)
                       | Inr old_interval \<Rightarrow>
                          (case s_room_intervals s0 (rs_room_id old_res) of
                             None \<Rightarrow> Inl (KeyError, s0)
                           | Some tree \<Rightarrow>
                              (case it_delete old_interval tree of
                                 Inl e \<Rightarrow> Inl (e, s0)
                               | Inr (b, tree') \<Rightarrow>
                                   Inr (s0\<lparr>s_room_intervals :=
                                            (s_room_intervals s0)(rs_room_id old_res \<mapsto> tree'),
                                           s_reservations :=
                                            (s_reservations s0)(reservation_id \<mapsto> a)\<rparr>)))))) of
            Inl x \<Rightarrow> Inl x
          | Inr s2 \<Rightarrow>
             (case reservation_interval reservation a of
                Inl e \<Rightarrow> Inl (e, s2)
              | Inr iv \<Rightarrow>
                 (case s_room_intervals s2 (rs_room_id reservation) of
                    None \<Rightarrow> Inr s2
                  | Some tree \<Rightarrow>
                     (case it_insert iv tree of
                        Inl e \<Rightarrow> Inl (e, s2)
                      | Inr (b, tree') \<Rightarrow>
                          Inr (s2\<lparr>s_room_intervals :=
                                   (s_room_intervals s2)(rs_room_id reservation \<mapsto> tree')\<rparr>)))))
      | _ \<Rightarrow> Inl (TypeError, s))"

definition restore_room ::
  "string \<Rightarrow> state_val \<Rightarrow> bool \<Rightarrow> ReservationSystem \<Rightarrow> (error \<times> ReservationSystem) + ReservationSystem" where
  "restore_room room_id state create s =
     (case state of
        RoomState room \<Rightarrow>
         (if create \<or> room_id \<notin> dom (s_rooms s) then
            (let s1 = s\<lparr>s_rooms := (s_rooms s)(room_id \<mapsto> room)\<rparr> in
             case avl_insert room_id room (s_room_tree s1) of
               Inl e \<Rightarrow> Inl (e, s1)
             | Inr (b, t) \<Rightarrow>
                 Inr (s1\<lparr>s_room_tree := t,
                         s_room_intervals :=
                           (if room_id \<notin> dom (s_room_intervals s1)
                            then (s_room_intervals s1)(room_id \<mapsto> IntervalTree_init)
                            else s_room_intervals s1)\<rparr>))
          else Inr (s\<lparr>s_rooms := (s_rooms s)(room_id \<mapsto> room)\<rparr>))
      | _ \<Rightarrow> Inl (TypeError, s))"

text \<open>
  \<open>_apply_undo_action\<close> and \<open>_apply_redo_action\<close> are \<open>if/elif\<close> chains over \<open>CREATE\<close>,
  \<open>UPDATE\<close> and \<open>DELETE\<close>, each over the entity types \<open>reservation\<close> and \<open>room\<close>; an
  action of another type or entity type falls through and nothing is done.  Only a
  batch action has no entity id.
\<close>

definition apply_undo_action ::
  "Action \<Rightarrow> ReservationSystem \<Rightarrow> (error \<times> ReservationSystem) + ReservationSystem" where
  "apply_undo_action a s =
     (case entity_id a of
        None \<Rightarrow> Inr s
      | Some eid \<Rightarrow>
         (case action_type a of
            CREATE \<Rightarrow>
              if entity_type a = ''reservation'' then force_delete_reservation eid s
              else if entity_type a = ''room'' then force_delete_room eid s
              else Inr s
          | UPDATE \<Rightarrow>
              if entity_type a = ''reservation'' then restore_reservation eid (old_state a) False s
              else if entity_type a = ''room'' then restore_room eid (old_state a) False s
              else Inr s
          | DELETE \<Rightarrow>
              if entity_type a = ''reservation'' then restore_reservation eid (old_state a) True s
              else if entity_type a = ''room'' then restore_room eid (old_state a) True s
              else Inr s
          | BATCH \<Rightarrow> Inr s))"

definition apply_redo_action ::
  "Action \<Rightarrow> ReservationSystem \<Rightarrow> (error \<times> ReservationSystem) + ReservationSystem" where
  "apply_redo_action a s =
     (case entity_id a of
        None \<Rightarrow> Inr s
      | Some eid \<Rightarrow>
         (case action_type a of
            CREATE \<Rightarrow>
              if entity_type a = ''reservation'' then restore_reservation eid (new_state a) True s
              else if entity_type a = ''room'' then restore_room eid (new_state a) True s
              else Inr s
          | UPDATE \<Rightarrow>
              if entity_type a = ''reservation'' then restore_reservation eid (new_state a) False s
              else if entity_type a = ''room'' then restore_room eid (new_state a) False s
              else Inr s
          | DELETE \<Rightarrow>
              if entity_type a = ''reservation'' then force_delete_reservation eid s
              else if entity_type a = ''room'' then force_delete_room eid s
              else Inr s
          | BATCH \<Rightarrow> Inr s))"

definition undo :: "ReservationSystem \<Rightarrow> string option outcome" where
  "undo s =
     (case um_undo (s_undo_manager s) of
        (None, m) \<Rightarrow> Inr (None, s)
      | (Some a, m) \<Rightarrow>
         (case apply_undo_action a (s\<lparr>s_undo_manager := m\<rparr>) of
            Inl x \<Rightarrow> Inl x
          | Inr s' \<Rightarrow> Inr (Some (''Geri alindi: '' @ description a), s')))"

definition redo :: "ReservationSystem \<Rightarrow> string option outcome" where
  "redo s =
     (case um_redo (s_undo_manager s) of
        (None, m) \<Rightarrow> Inr (None, s)
      | (Some a, m) \<Rightarrow>
         (case apply_redo_action a (s\<lparr>s_undo_manager := m\<rparr>) of
            Inl x \<Rightarrow> Inl x
          | Inr s' \<Rightarrow> Inr (Some (''Yinelendi: '' @ description a), s')))"

section \<open>Running operations\<close>

text \<open>
  The state an operation leaves behind (also when it raised) and what it returned.
\<close>

fun state_of :: "'a outcome \<Rightarrow> ReservationSystem" where
  "state_of (Inr (x, s)) = s"
| "state_of (Inl (e, s)) = s"

fun result_of :: "'a outcome \<Rightarrow> error + 'a" where
  "result_of (Inr (x, s)) = Inr x"
| "result_of (Inl (e, s)) = Inl e"

text \<open>
  Sample inputs, after the rooms and reservations of the module's own demonstration: a
  meeting room for ten, and a booking of five attendees in room \<open>R001\<close> with the given
  id, times (seconds since the epoch) and status.
\<close>

definition sample_room :: "string \<Rightarrow> Room" where
  "sample_room rid =
     \<lparr>rm_id = rid, rm_name = ''Toplanti Salonu'', rm_capacity = 10, rm_room_type = MEETING,
      rm_floor = 1, rm_amenities = [''projeksiyon'', ''whiteboard''], rm_hourly_rate = 100,
      rm_is_active = True\<rparr>"

definition sample_booking ::
  "string \<Rightarrow> datetime \<Rightarrow> datetime \<Rightarrow> ReservationStatus \<Rightarrow> Reservation" where
  "sample_booking bid start_time end_time status =
     \<lparr>rs_id = bid, rs_room_id = ''R001'', rs_customer_name = ''Ahmet Yilmaz'',
      rs_customer_email = ''ahmet@email.com'', rs_start_time = start_time,
      rs_end_time = end_time, rs_status = status, rs_priority = 2,
      rs_title = ''Proje Toplantisi'', rs_description = [], rs_attendees = 5,
      rs_created_at = 0, rs_updated_at = 0\<rparr>"

text \<open>The intervals stored for a room, in order, or \<open>None\<close> when the room has no index.\<close>

definition room_index :: "ReservationSystem \<Rightarrow> string \<Rightarrow> nat Interval list option" where
  "room_index s room_id = map_option get_all_intervals (s_room_intervals s room_id)"

definition sys_with_room :: ReservationSystem where
  "sys_with_room = state_of (add_room (sample_room ''R001'') ReservationSystem_init)"

definition sample_action :: "string \<Rightarrow> Action" where
  "sample_action rid =
     Action CREATE ''room'' (Some rid) NoState (RoomState (sample_room rid)) ''Salon eklendi''"

text \<open>A manager with room for two commands that has recorded two.\<close>

definition full_manager :: UndoRedoManager where
  "full_manager =
     record_action (sample_action ''R002'')
       (record_action (sample_action ''R001'') (UndoRedoManager_init 2))"

section \<open>Invariants of the interval tree\<close>

text \<open>
  \<open>i_aug\<close>: every cached \<open>max_end\<close> is the maximum of the node's own end and the cached
  values of its children, as \<open>_update_height_and_max\<close> computes it.
\<close>

fun i_aug :: "'d IntervalNode \<Rightarrow> bool" where
  "i_aug ILeaf = True"
| "i_aug (INode i m l r h) \<longleftrightarrow>
     m = max_with (max_with (iv_end i) l) r \<and> i_aug l \<and> i_aug r"

text \<open>A node whose children are augmented, whatever its own cached fields hold.\<close>

fun i_aug_children :: "'d IntervalNode \<Rightarrow> bool" where
  "i_aug_children ILeaf = True"
| "i_aug_children (INode i m l r h) \<longleftrightarrow> i_aug l \<and> i_aug r"



text \<open>
  \<open>i_avl\<close>: every cached height is one more than the larger child height and the child
  heights differ by at most one.
\<close>

fun i_avl :: "'d IntervalNode \<Rightarrow> bool" where
  "i_avl ILeaf = True"
| "i_avl (INode i m l r h) \<longleftrightarrow>
     h = 1 + max (i_height l) (i_height r)
     \<and> i_height l \<le> i_height r + 1 \<and> i_height r \<le> i_height l + 1
     \<and> i_avl l \<and> i_avl r"

text \<open>
  Which side of the root an insertion made taller: \<open>_insert\<close> chooses its rotation by
  comparing the inserted start with the child's start, not by the child's balance.
\<close>

fun i_grew :: "'d Interval \<Rightarrow> 'd IntervalNode \<Rightarrow> bool" where
  "i_grew iv ILeaf = False"
| "i_grew iv (INode i m l r h) \<longleftrightarrow>
     (l = ILeaf \<and> r = ILeaf)
     \<or> (if iv_start iv < iv_start i then i_height l = i_height r + 1
         else i_height r = i_height l + 1)"





text \<open>
  A system on whose manager a batch is opened, three rooms are added and the batch is
  closed.
\<close>

definition sys_in_batch :: ReservationSystem where
  "sys_in_batch =
     ReservationSystem_init\<lparr>s_undo_manager := begin_batch (s_undo_manager ReservationSystem_init)\<rparr>"

definition sys_three_rooms :: ReservationSystem where
  "sys_three_rooms =
     state_of (add_room (sample_room ''R003'')
       (state_of (add_room (sample_room ''R002'')
          (state_of (add_room (sample_room ''R001'') sys_in_batch)))))"

definition sys_after_batch :: ReservationSystem where
  "sys_after_batch =
     sys_three_rooms\<lparr>s_undo_manager := end_batch ''Toplu islem'' (s_undo_manager sys_three_rooms)\<rparr>"

section \<open>Interval tree: delete after insert\<close>

text \<open>
  Claim C9: for every interval tree and every interval stored in it, \<open>delete\<close> succeeds
  and removes one copy, so \<open>insert(i)\<close> followed by \<open>delete(i)\<close> restores the stored
  intervals.  The code does not do this: \<open>_insert\<close> descends by \<open>start\<close> alone, while
  \<open>_delete\<close> descends by \<open>(start, end)\<close>.  After inserting \<open>[5,10)\<close> and then
  \<open>[5,7)\<close> the second interval is the right child of the first; \<open>delete([5,7))\<close>
  looks for it on the left, returns \<open>False\<close> and leaves the tree as it was.
\<close>

theorem C9_delete_misses_stored_interval:
  "it_insert \<lparr>iv_start = 5, iv_end = 10, iv_data = None\<rparr> (IntervalTree_init :: nat IntervalTree)
     = Inr (True, \<lparr>it_root = INode \<lparr>iv_start = 5, iv_end = 10, iv_data = None\<rparr> 10 ILeaf ILeaf 1,
                   it_size = 1\<rparr>)
   \<and> it_insert \<lparr>iv_start = 5, iv_end = 7, iv_data = None\<rparr>
        \<lparr>it_root = INode \<lparr>iv_start = 5, iv_end = 10, iv_data = None\<rparr> 10 ILeaf ILeaf 1,
         it_size = 1\<rparr>
     = Inr (True, \<lparr>it_root = INode \<lparr>iv_start = 5, iv_end = 10, iv_data = None\<rparr> 10 ILeaf
                      (INode \<lparr>iv_start = 5, iv_end = 7, iv_data = None\<rparr> 7 ILeaf ILeaf 1) 2,
                   it_size = 2\<rparr>)
   \<and> it_delete \<lparr>iv_start = 5, iv_end = 7, iv_data = None\<rparr>
        \<lparr>it_root = INode \<lparr>iv_start = 5, iv_end = 10, iv_data = None\<rparr> 10 ILeaf
                      (INode \<lparr>iv_start = 5, iv_end = 7, iv_data = None\<rparr> 7 ILeaf ILeaf 1) 2,
         it_size = 2\<rparr>
     = Inr (False, \<lparr>it_root = INode \<lparr>iv_start = 5, iv_end = 10, iv_data = None\<rparr> 10 ILeaf
                      (INode \<lparr>iv_start = 5, iv_end = 7, iv_data = None\<rparr> 7 ILeaf ILeaf 1) 2,
                    it_size = (2::nat)\<rparr>)"
  by (simp add: it_insert_def it_delete_def IntervalTree_init_def i_insert_balance_def
      i_delete_balance_def i_update_height_and_max_def interval_lt_def interval_eq_def Let_def)


section \<open>AVL tree: insert on a present key\<close>

text \<open>
  Claim C7: insert on a key that is already present overwrites the value and leaves
  \<open>size\<close> unchanged.  The value is overwritten, but \<open>insert\<close> adds one to \<open>size\<close> on
  every call: inserting key \<open>B1\<close> twice gives a tree of one node whose \<open>size\<close> is 2.
\<close>

theorem C7_insert_on_present_key_grows_size:
  "avl_insert ''B1'' (1::nat) AVLTree_init
     = Inr (True, \<lparr>avl_root = ANode ''B1'' 1 ALeaf ALeaf 1, avl_size = 1\<rparr>)
   \<and> avl_insert ''B1'' (2::nat) \<lparr>avl_root = ANode ''B1'' 1 ALeaf ALeaf 1, avl_size = 1\<rparr>
     = Inr (True, \<lparr>avl_root = ANode ''B1'' 2 ALeaf ALeaf 1, avl_size = 2\<rparr>)
   \<and> avl_search \<lparr>avl_root = ANode ''B1'' (2::nat) ALeaf ALeaf 1, avl_size = 2\<rparr> ''B1'' = Some 2
   \<and> inorder_traversal \<lparr>avl_root = ANode ''B1'' (2::nat) ALeaf ALeaf 1, avl_size = 2\<rparr>
     = [(''B1'', 2)]"
  by code_simp

section \<open>Undo stack at its maximum\<close>

text \<open>
  Claim C8: when the undo stack is full, recording a command drops the oldest entry and
  stores the new one.  The code does not store it: \<open>Stack.push\<close> returns \<open>False\<close> on a
  full stack and \<open>record_action\<close> ignores the result.  With room for two commands and
  two recorded, a third \<open>record_action\<close> leaves the stack as it was, the third command
  is not on it, and the next \<open>undo\<close> returns the second command, not the last one
  recorded.
\<close>

theorem C8_new_command_is_dropped_when_full:
  "st_items (um_undo_stack full_manager) = [sample_action ''R001'', sample_action ''R002'']
   \<and> st_items (um_undo_stack (record_action (sample_action ''R003'') full_manager))
       = [sample_action ''R001'', sample_action ''R002'']
   \<and> sample_action ''R003''
       \<notin> set (st_items (um_undo_stack (record_action (sample_action ''R003'') full_manager)))
   \<and> fst (um_undo (record_action (sample_action ''R003'') full_manager))
       = Some (sample_action ''R002'')"
  by code_simp

text \<open>
  The same for any manager: on a full undo stack, outside a batch, \<open>record_action\<close>
  leaves the undo stack unchanged and clears the redo stack.
\<close>

lemma record_action_on_full_stack:
  assumes "\<not> um_batch_mode m"
    and "st_max_size (um_undo_stack m) = Some k" and "k \<noteq> 0"
    and "int (length (st_items (um_undo_stack m))) \<ge> k"
  shows "um_undo_stack (record_action a m) = um_undo_stack m
         \<and> st_items (um_redo_stack (record_action a m)) = []"
  using assms by (simp add: record_action_def stack_push_def stack_clear_def)

section \<open>Batches and undo\<close>

text \<open>
  Claim C4, as stated: after \<open>begin_batch\<close>, three operations and \<open>end_batch\<close>, one
  \<open>undo\<close> reverts all three and the system is in the state from before the batch.  It
  is false: with the batch opened on the system's manager (the only place where
  \<open>begin_batch\<close> exists) around three \<open>add_room\<close> calls, \<open>undo\<close> pops the batch command
  and reverts nothing; the three rooms, none of which existed before, are all still
  there.
\<close>

theorem C4_undo_of_batch_reverts_nothing:
  "map (get_room ReservationSystem_init) [''R001'', ''R002'', ''R003''] = [None, None, None]
   \<and> length (st_items (um_undo_stack (s_undo_manager sys_after_batch))) = 1
   \<and> result_of (undo sys_after_batch) = Inr (Some ''Geri alindi: Toplu islem'')
   \<and> st_items (um_undo_stack (s_undo_manager (state_of (undo sys_after_batch)))) = []
   \<and> map (get_room (state_of (undo sys_after_batch))) [''R001'', ''R002'', ''R003'']
       = [Some (sample_room ''R001''), Some (sample_room ''R002''), Some (sample_room ''R003'')]
   \<and> map (s_rooms (state_of (undo sys_after_batch))) [''R001'', ''R002'', ''R003'']
       = [Some (sample_room ''R001''), Some (sample_room ''R002''), Some (sample_room ''R003'')]"
  by code_simp

text \<open>
  Claim C4, amended: after \<open>begin_batch\<close>, three recorded commands and \<open>end_batch\<close> on a
  manager whose undo stack has room, one \<open>undo\<close> of the manager pops a single \<open>BATCH\<close>
  command that lists the three buffered commands in the order they were recorded,
  leaves the undo stack as it was before the batch, and returns the command to the
  caller.  The buffered commands are applied by nobody: \<open>_apply_undo_action\<close> and
  \<open>_apply_redo_action\<close> have no branch for \<open>BATCH\<close> and leave the system state as it
  is.
\<close>

theorem C4_batch_is_one_command_and_is_not_applied:
  assumes "st_max_size (um_undo_stack m) = Some k"
    and "int (length (st_items (um_undo_stack m))) < k"
  shows "fst (um_undo (end_batch d
                (record_action a3 (record_action a2 (record_action a1 (begin_batch m))))))
           = Some (Action BATCH ''batch'' None (SubActions [a1, a2, a3]) NoState d)
         \<and> st_items (um_undo_stack (snd (um_undo (end_batch d
                (record_action a3 (record_action a2 (record_action a1 (begin_batch m))))))))
           = st_items (um_undo_stack m)
         \<and> apply_undo_action (Action BATCH ''batch'' None (SubActions [a1, a2, a3]) NoState d) s
           = Inr s
         \<and> apply_redo_action (Action BATCH ''batch'' None (SubActions [a1, a2, a3]) NoState d) s
           = Inr s"
  using assms
  by (simp add: um_undo_def can_undo_def stack_is_empty_def stack_pop_def stack_push_def
      stack_clear_def end_batch_def record_action_def begin_batch_def Let_def
      apply_undo_action_def apply_redo_action_def)

text \<open>
  The amended claim C4 at a new manager with room for 100 commands, three room
  creations and the system with one room.
\<close>

theorem C4_batch_is_one_command_witness:
  "st_max_size (um_undo_stack (UndoRedoManager_init 100)) = Some 100
   \<and> int (length (st_items (um_undo_stack (UndoRedoManager_init 100)))) < 100
   \<and> fst (um_undo (end_batch ''Toplu islem''
        (record_action (sample_action ''R003'') (record_action (sample_action ''R002'')
           (record_action (sample_action ''R001'') (begin_batch (UndoRedoManager_init 100)))))))
       = Some (Action BATCH ''batch'' None
                 (SubActions [sample_action ''R001'', sample_action ''R002'', sample_action ''R003''])
                 NoState ''Toplu islem'')
   \<and> apply_undo_action
        (Action BATCH ''batch'' None
           (SubActions [sample_action ''R001'', sample_action ''R002'', sample_action ''R003''])
           NoState ''Toplu islem'') sys_with_room
       = Inr sys_with_room"
proof -
  have h1: "st_max_size (um_undo_stack (UndoRedoManager_init 100)) = Some 100" by code_simp
  have h2: "int (length (st_items (um_undo_stack (UndoRedoManager_init 100)))) < 100"
    by code_simp
  from C4_batch_is_one_command_and_is_not_applied [OF h1 h2,
      of "''Toplu islem''" "sample_action ''R003''" "sample_action ''R002''"
         "sample_action ''R001''" sys_with_room]
  show ?thesis using h1 h2 by simp
qed

section \<open>Undo after a mutation\<close>

text \<open>
  Claim C3: a mutation followed by \<open>undo\<close> restores every booking seen through the
  public lookups.  In the code the update branch of \<open>_restore_reservation\<close> stores the
  restored object in \<open>_reservations\<close> only, while \<open>get_reservation\<close> reads
  \<open>_reservation_tree\<close>: after creating a confirmed booking, cancelling it and undoing the
  cancellation, \<open>get_reservation\<close> still returns the cancelled booking.
\<close>

theorem C3_undo_of_cancel_not_seen_by_lookup:
  "(let s2 = state_of (create_reservation (sample_booking ''B1'' 32400 36000 CONFIRMED)
                sys_with_room);
        s3 = state_of (cancel_reservation ''B1'' 7 s2);
        s4 = state_of (undo s3)
    in map_option rs_status (get_reservation s2 ''B1'') = Some CONFIRMED
     \<and> result_of (cancel_reservation ''B1'' 7 s2) = Inr (True, ReservationCancelled)
     \<and> result_of (undo s3)
         = Inr (Some ''Geri alindi: Rezervasyon iptal edildi: Proje Toplantisi'')
     \<and> map_option rs_status (get_reservation s4 ''B1'') = Some CANCELLED
     \<and> get_reservation s4 ''B1'' \<noteq> get_reservation s2 ''B1''
     \<and> map_option (s_heap s4) (s_reservations s4 ''B1'') = get_reservation s2 ''B1'')"
  by code_simp

section \<open>The conflict path of update\<close>

text \<open>
  Claim C6: when the conflict re-check of \<open>update_reservation\<close> fails, every interval
  index holds the same intervals as before the call.  The code deletes the old interval
  and, on conflict, inserts it again whether or not it was stored: for a cancelled
  booking, whose interval the cancellation removed, the failed update adds the interval
  to the index of its room.
\<close>

theorem C6_failed_update_of_cancelled_booking_adds_interval:
  "(let s2 = state_of (create_reservation (sample_booking ''B1'' 32400 36000 CONFIRMED)
                sys_with_room);
        s3 = state_of (cancel_reservation ''B1'' 7 s2);
        s4 = state_of (create_reservation (sample_booking ''B2'' 39600 43200 CONFIRMED) s3);
        u = update_reservation ''B1'' [KW_start_time 39600, KW_end_time 43200] 9 s4
    in room_index s4 ''R001'' = Some [\<lparr>iv_start = 660, iv_end = 720, iv_data = Some 1\<rparr>]
     \<and> result_of u = Inr (False, UpdateConflict)
     \<and> room_index (state_of u) ''R001''
         = Some [\<lparr>iv_start = 540, iv_end = 600, iv_data = Some 0\<rparr>,
                 \<lparr>iv_start = 660, iv_end = 720, iv_data = Some 1\<rparr>]
     \<and> get_reservation (state_of u) ''B1'' = get_reservation s4 ''B1'')"
  by code_simp

section \<open>Bookings with start not before end\<close>

text \<open>
  What \<open>create_reservation\<close> does with a booking whose start minute is after its end
  minute, on a room that is found, active, large enough and has an interval index: the
  \<open>Interval\<close> constructor inside \<open>check_conflict\<close> raises \<open>ValueError\<close>, before any
  mutation.
\<close>

lemma create_reservation_inverted_interval:
  assumes "get_room s (rs_room_id r) = Some room" and "rm_is_active room"
    and "rs_attendees r \<le> rm_capacity room"
    and "s_room_intervals s (rs_room_id r) = Some tree"
    and "datetime_to_minutes (rs_start_time r) > datetime_to_minutes (rs_end_time r)"
  shows "create_reservation r s = Inl (ValueError, s)"
  using assms by (simp add: create_reservation_def check_conflict_def Interval_init_def)

text \<open>
  Claim C5: every booking with \<open>start >= end\<close> is refused by \<open>create_reservation\<close> with an
  invalid-interval result value, never an exception, and nothing is changed.  The code
  has no such check.  A booking from 10:00 to 09:00 makes \<open>create_reservation\<close> raise
  \<open>ValueError\<close> instead of returning a result (the state is unchanged); a booking whose
  start equals its end, and a booking from 09:00:30 to 09:00:00, are accepted and stored.
\<close>

theorem C5_invalid_interval_is_not_refused:
  "create_reservation (sample_booking ''B1'' 36000 32400 CONFIRMED) sys_with_room
     = Inl (ValueError, sys_with_room)
   \<and> result_of (create_reservation (sample_booking ''B1'' 32400 32400 CONFIRMED) sys_with_room)
     = Inr (True, ReservationCreated ''B1'')
   \<and> get_reservation
       (state_of (create_reservation (sample_booking ''B1'' 32400 32400 CONFIRMED) sys_with_room))
       ''B1''
     = Some (sample_booking ''B1'' 32400 32400 CONFIRMED)
   \<and> room_index
       (state_of (create_reservation (sample_booking ''B1'' 32400 32400 CONFIRMED) sys_with_room))
       ''R001''
     = Some [\<lparr>iv_start = 540, iv_end = 540, iv_data = Some 0\<rparr>]
   \<and> result_of (create_reservation (sample_booking ''B1'' 32430 32400 CONFIRMED) sys_with_room)
     = Inr (True, ReservationCreated ''B1'')
   \<and> get_reservation
       (state_of (create_reservation (sample_booking ''B1'' 32430 32400 CONFIRMED) sys_with_room))
       ''B1''
     = Some (sample_booking ''B1'' 32430 32400 CONFIRMED)"
proof -
  have h1: "get_room sys_with_room (rs_room_id (sample_booking ''B1'' 36000 32400 CONFIRMED))
              = Some (sample_room ''R001'')" by code_simp
  have h2: "rm_is_active (sample_room ''R001'')" by code_simp
  have h3: "rs_attendees (sample_booking ''B1'' 36000 32400 CONFIRMED)
              \<le> rm_capacity (sample_room ''R001'')" by code_simp
  have h4: "s_room_intervals sys_with_room (rs_room_id (sample_booking ''B1'' 36000 32400 CONFIRMED))
              = Some IntervalTree_init" by code_simp
  have h5: "datetime_to_minutes (rs_start_time (sample_booking ''B1'' 36000 32400 CONFIRMED))
              > datetime_to_minutes (rs_end_time (sample_booking ''B1'' 36000 32400 CONFIRMED))"
    by code_simp
  have raises: "create_reservation (sample_booking ''B1'' 36000 32400 CONFIRMED) sys_with_room
                  = Inl (ValueError, sys_with_room)"
    by (rule create_reservation_inverted_interval [OF h1 h2 h3 h4 h5])
  have accepted:
    "result_of (create_reservation (sample_booking ''B1'' 32400 32400 CONFIRMED) sys_with_room)
       = Inr (True, ReservationCreated ''B1'')
     \<and> get_reservation
         (state_of (create_reservation (sample_booking ''B1'' 32400 32400 CONFIRMED) sys_with_room))
         ''B1''
       = Some (sample_booking ''B1'' 32400 32400 CONFIRMED)
     \<and> room_index
         (state_of (create_reservation (sample_booking ''B1'' 32400 32400 CONFIRMED) sys_with_room))
         ''R001''
       = Some [\<lparr>iv_start = 540, iv_end = 540, iv_data = Some 0\<rparr>]
     \<and> result_of (create_reservation (sample_booking ''B1'' 32430 32400 CONFIRMED) sys_with_room)
       = Inr (True, ReservationCreated ''B1'')
     \<and> get_reservation
         (state_of (create_reservation (sample_booking ''B1'' 32430 32400 CONFIRMED) sys_with_room))
         ''B1''
       = Some (sample_booking ''B1'' 32430 32400 CONFIRMED)"
    by code_simp
  from raises accepted show ?thesis by blast
qed

section \<open>Overlapping bookings\<close>

text \<open>
  Claim C1, as stated: two distinct bookings of one room, neither cancelled, never
  overlap.  It is false: \<open>check_conflict\<close> also ignores completed bookings, so a booking
  from 09:30 to 10:30 is created over a completed one from 09:00 to 10:00.
\<close>

theorem C1_completed_booking_overlaps_new_booking:
  "get_reservation
     (state_of (create_reservation (sample_booking ''B2'' 34200 37800 CONFIRMED)
        (state_of (create_reservation (sample_booking ''B1'' 32400 36000 COMPLETED)
           sys_with_room)))) ''B1''
     = Some (sample_booking ''B1'' 32400 36000 COMPLETED)
   \<and> get_reservation
     (state_of (create_reservation (sample_booking ''B2'' 34200 37800 CONFIRMED)
        (state_of (create_reservation (sample_booking ''B1'' 32400 36000 COMPLETED)
           sys_with_room)))) ''B2''
     = Some (sample_booking ''B2'' 34200 37800 CONFIRMED)
   \<and> rs_room_id (sample_booking ''B1'' 32400 36000 COMPLETED)
       = rs_room_id (sample_booking ''B2'' 34200 37800 CONFIRMED)
   \<and> rs_status (sample_booking ''B1'' 32400 36000 COMPLETED) \<noteq> CANCELLED
   \<and> rs_status (sample_booking ''B2'' 34200 37800 CONFIRMED) \<noteq> CANCELLED
   \<and> rs_start_time (sample_booking ''B1'' 32400 36000 COMPLETED)
       < rs_end_time (sample_booking ''B2'' 34200 37800 CONFIRMED)
   \<and> rs_start_time (sample_booking ''B2'' 34200 37800 CONFIRMED)
       < rs_end_time (sample_booking ''B1'' 32400 36000 COMPLETED)"
  by code_simp

section \<open>find\_overlapping against the linear scan\<close>

subsection \<open>The search under the invariants\<close>


lemma i_search_none:
  "\<forall>x \<in> set (i_inorder t). \<not> overlaps x q \<Longrightarrow> i_search q t = []"
  by (induction t) auto


subsection \<open>Rotations and rebalancing keep the in-order sequence and the cached maxima\<close>

lemma i_update_inorder [simp]:
  "i_inorder (i_update_height_and_max i l r) = i_inorder l @ i # i_inorder r"
  by (simp add: i_update_height_and_max_def)

lemma i_update_aug [simp]:
  "i_aug (i_update_height_and_max i l r) \<longleftrightarrow> i_aug l \<and> i_aug r"
  by (simp add: i_update_height_and_max_def)

lemma i_rotate_right_inorder:
  "i_rotate_right n = Inr n' \<Longrightarrow> i_inorder n' = i_inorder n"
  by (induction n rule: i_rotate_right.induct) auto

lemma i_rotate_left_inorder:
  "i_rotate_left n = Inr n' \<Longrightarrow> i_inorder n' = i_inorder n"
  by (induction n rule: i_rotate_left.induct) auto

lemma i_aug_children_update [simp]:
  "i_aug_children (i_update_height_and_max i l r) \<longleftrightarrow> i_aug l \<and> i_aug r"
  by (simp add: i_update_height_and_max_def)




lemma i_insert_balance_cases:
  assumes "i_insert_balance iv i l r = Inr n'"
  obtains (a) "i_rotate_right (i_update_height_and_max i l r) = Inr n'"
    | (b) l' where "i_rotate_left l = Inr l'" "i_rotate_right (i_update_height_and_max i l' r) = Inr n'"
    | (c) "i_rotate_left (i_update_height_and_max i l r) = Inr n'"
    | (d) r' where "i_rotate_right r = Inr r'" "i_rotate_left (i_update_height_and_max i l r') = Inr n'"
    | (e) "n' = i_update_height_and_max i l r"
proof -
  let ?node = "i_update_height_and_max i l r"
  let ?b = "i_balance_factor ?node"
  show thesis
  proof (cases "?b > 1")
    case hi: True
    show thesis
    proof (cases l)
      case ILeaf
      with hi assms show thesis by (simp add: i_insert_balance_def Let_def)
    next
      case (INode li lm ll lr lh)
      show thesis
      proof (cases "iv_start iv < iv_start li")
        case True
        with hi INode assms have "i_rotate_right ?node = Inr n'"
          by (simp add: i_insert_balance_def Let_def)
        then show thesis by (rule a)
      next
        case False
        with hi INode assms have
          "(case i_rotate_left l of Inl e \<Rightarrow> Inl e
            | Inr l' \<Rightarrow> i_rotate_right (i_update_height_and_max i l' r)) = Inr n'"
          by (simp add: i_insert_balance_def Let_def)
        then obtain l' where "i_rotate_left l = Inr l'"
          "i_rotate_right (i_update_height_and_max i l' r) = Inr n'"
          by (cases "i_rotate_left l") simp_all
        then show thesis by (rule b)
      qed
    qed
  next
    case nhi: False
    show thesis
    proof (cases "?b < -1")
      case lo: True
      show thesis
      proof (cases r)
        case ILeaf
        with nhi lo assms show thesis by (simp add: i_insert_balance_def Let_def)
      next
        case (INode ri rm rl rr rh)
        show thesis
        proof (cases "iv_start iv \<ge> iv_start ri")
          case True
          with nhi lo INode assms have "i_rotate_left ?node = Inr n'"
            by (simp add: i_insert_balance_def Let_def)
          then show thesis by (rule c)
        next
          case False
          with nhi lo INode assms have
            "(case i_rotate_right r of Inl e \<Rightarrow> Inl e
              | Inr r' \<Rightarrow> i_rotate_left (i_update_height_and_max i l r')) = Inr n'"
            by (simp add: i_insert_balance_def Let_def)
          then obtain r' where "i_rotate_right r = Inr r'"
            "i_rotate_left (i_update_height_and_max i l r') = Inr n'"
            by (cases "i_rotate_right r") simp_all
          then show thesis by (rule d)
        qed
      qed
    next
      case False
      with nhi assms have "n' = ?node"
        by (simp add: i_insert_balance_def Let_def)
      then show thesis by (rule e)
    qed
  qed
qed

lemma i_insert_balance_inorder:
  assumes "i_insert_balance iv i l r = Inr n'"
  shows "i_inorder n' = i_inorder l @ i # i_inorder r"
  using assms
  by (cases rule: i_insert_balance_cases)
     (simp_all add: i_rotate_right_inorder i_rotate_left_inorder)







lemma i_insert_rec_mset:
  "i_insert_rec iv t = Inr t' \<Longrightarrow> mset (i_inorder t') = add_mset iv (mset (i_inorder t))"
proof (induction t arbitrary: t')
  case ILeaf
  then show ?case by auto
next
  case (INode i m l r h)
  then show ?case
    by (auto split: if_splits sum.splits dest!: i_insert_balance_inorder)
qed


subsection \<open>delete keeps the cached maxima and the order\<close>










subsection \<open>insert and delete never raise and keep the tree balanced\<close>

lemma i_update_height [simp]:
  "i_height (i_update_height_and_max i l r) = 1 + max (i_height l) (i_height r)"
  by (simp add: i_update_height_and_max_def)

lemma i_update_avl [simp]:
  "i_avl (i_update_height_and_max i l r) \<longleftrightarrow>
     i_height l \<le> i_height r + 1 \<and> i_height r \<le> i_height l + 1 \<and> i_avl l \<and> i_avl r"
  by (simp add: i_update_height_and_max_def)

lemma i_update_balance [simp]:
  "i_balance_factor (i_update_height_and_max i l r) = int (i_height l) - int (i_height r)"
  by (simp add: i_update_height_and_max_def)

lemma i_rotate_right_update [simp]:
  "i_rotate_right (i_update_height_and_max i (INode li lm ll lr lh) r)
     = Inr (i_update_height_and_max li ll (i_update_height_and_max i lr r))"
  by (simp add: i_update_height_and_max_def)

lemma i_rotate_left_update [simp]:
  "i_rotate_left (i_update_height_and_max i l (INode ri rm rl rr rh))
     = Inr (i_update_height_and_max ri (i_update_height_and_max i l rl) rr)"
  by (simp add: i_update_height_and_max_def)





lemma i_grew_update [simp]:
  "i_grew iv (i_update_height_and_max i l r) \<longleftrightarrow>
     (l = ILeaf \<and> r = ILeaf)
     \<or> (if iv_start iv < iv_start i then i_height l = i_height r + 1
         else i_height r = i_height l + 1)"
  by (simp add: i_update_height_and_max_def)







subsection \<open>Every sequence of insert and delete runs through\<close>









section \<open>Bookings marked NO\_SHOW\<close>




end
